theory Spec2Isabelle
  imports Main "HOL-Library.Word" "HOL-Library.AList"
begin

section \<open>Go values shared by the embedding\<close>

text \<open>
  A Go \<^verbatim>\<open>string\<close> is a sequence of bytes: \<^verbatim>\<open>len(s)\<close> counts bytes, \<^verbatim>\<open>s[i]\<close> is
  a byte and \<^verbatim>\<open>s[i:]\<close> cuts at a byte offset. HOL's \<^typ>\<open>char\<close> is a byte, so a Go
  string is a \<^typ>\<open>string\<close>. An \<^verbatim>\<open>int32\<close> is a 32-bit word, whose addition wraps
  around as Go's does; \<^const>\<open>sint\<close> reads it as the signed value. A pointer that
  may be \<^verbatim>\<open>nil\<close> is an \<^typ>\<open>'a option\<close>.

  A run-time panic is a value: a function that can panic returns
  \<open>panic + 'a\<close>, with \<^const>\<open>Inl\<close> for the panic. \<open>PanicValue\<close> is a panic
  raised by \<^verbatim>\<open>panic(v)\<close> with any other value, kept by its printed form.
\<close>

type_synonym int32 = "32 word"

datatype panic = IndexOutOfRange | SliceBoundsOutOfRange | NilPointerDereference | PanicValue string

text \<open>\<^verbatim>\<open>s[0]\<close>: the first byte, a panic on the empty string.\<close>

definition index0 :: "string \<Rightarrow> panic + char" where
  "index0 s = (case s of [] \<Rightarrow> Inl IndexOutOfRange | c # _ \<Rightarrow> Inr c)"

text \<open>\<^verbatim>\<open>s[offset:]\<close>: the bytes from \<open>offset\<close> on, a panic when \<open>offset\<close> exceeds the length.\<close>

definition slice_from :: "string \<Rightarrow> nat \<Rightarrow> panic + string" where
  "slice_from s offset =
     (if offset \<le> length s then Inr (drop offset s) else Inl SliceBoundsOutOfRange)"

section \<open>NameSanitizer: \<^verbatim>\<open>CheckName\<close> and \<^verbatim>\<open>CheckLabel\<close> (util.go)\<close>

text \<open>
  \<^verbatim>\<open>unicode.IsDigit(rune(s[0]))\<close> and \<^verbatim>\<open>unicode.IsPunct(rune(s[0]))\<close> are applied to
  one byte, converted to the code point of the same number, so only the Latin-1 range
  U+0000 to U+00FF is ever asked. There, Go's \<^verbatim>\<open>unicode\<close> package answers
  \<^verbatim>\<open>IsDigit\<close> for \<^verbatim>\<open>'0'\<close> to \<^verbatim>\<open>'9'\<close> only, and \<^verbatim>\<open>IsPunct\<close> for the code
  points of Unicode category P: the ASCII marks
  \<^verbatim>\<open>! " # % & ' ( ) * , - . / : ; ? @ [ \ ] _ { }\<close> and the Latin-1 marks
  U+00A1, U+00A7, U+00AB, U+00B6, U+00B7, U+00BB, U+00BF. The ASCII characters
  \<^verbatim>\<open>$ + < = > ^ ` | ~\<close> are symbols (category S), not punctuation.
\<close>

definition IsDigit :: "char \<Rightarrow> bool" where
  "IsDigit c = (48 \<le> (of_char c :: nat) \<and> (of_char c :: nat) \<le> 57)"

definition IsPunct :: "char \<Rightarrow> bool" where
  "IsPunct c = ((of_char c :: nat) \<in> set
     [33, 34, 35, 37, 38, 39, 40, 41, 42, 44, 45, 46, 47, 58, 59, 63, 64,
      91, 92, 93, 95, 123, 125, 161, 167, 171, 182, 183, 187, 191])"

text \<open>
  The block \<^verbatim>\<open>if len(s) > maxLenght { offset := int(math.Abs(float64(maxLenght) -
  float64(len(s)))); s = s[offset:] }\<close> that both functions start with. The offset is
  computed in \<^verbatim>\<open>float64\<close>, which holds every integer up to \<open>2^53\<close> exactly, so for
  every string that fits in memory it is the integer \<open>|maxLenght - len(s)|\<close>. The
  \<^verbatim>\<open>fmt.Printf\<close> that reports the shortening writes to standard output only and is
  left out.
\<close>

definition shorten :: "nat \<Rightarrow> string \<Rightarrow> panic + string" where
  "shorten maxLenght s =
     (if length s > maxLenght
      then (let offset = nat \<bar>int maxLenght - int (length s)\<bar> in slice_from s offset)
      else Inr s)"

text \<open>
  The block \<^verbatim>\<open>if unicode.IsX(rune(s[0])) { s = "r" + s[1:] }\<close>, for the test
  \<open>IsX\<close>; the \<^verbatim>\<open>fmt.Println(s)\<close> of the punctuation case is left out.
\<close>

definition replace_leading :: "(char \<Rightarrow> bool) \<Rightarrow> string \<Rightarrow> panic + string" where
  "replace_leading IsX s =
     (case index0 s of
        Inl e \<Rightarrow> Inl e
      | Inr c \<Rightarrow>
          if IsX c
          then (case slice_from s 1 of Inl e \<Rightarrow> Inl e | Inr t \<Rightarrow> Inr (''r'' @ t))
          else Inr s)"

definition CheckName :: "string \<Rightarrow> panic + string" where
  "CheckName s =
     (let maxLenght = 50 in
      case shorten maxLenght s of
        Inl e \<Rightarrow> Inl e
      | Inr s1 \<Rightarrow>
          (case replace_leading IsDigit s1 of
             Inl e \<Rightarrow> Inl e
           | Inr s2 \<Rightarrow> replace_leading IsPunct s2))"

definition CheckLabel :: "string \<Rightarrow> panic + string" where
  "CheckLabel s =
     (let maxLenght = 63 in
      case shorten maxLenght s of
        Inl e \<Rightarrow> Inl e
      | Inr s1 \<Rightarrow> replace_leading IsPunct s1)"

section \<open>Kubernetes objects (k8s.io/api/core/v1), as far as util.go reads them\<close>

text \<open>
  \<^verbatim>\<open>PodPhase\<close> is a string type; the constants are those of the Kubernetes API.
\<close>

type_synonym PodPhase = string

definition PodPending :: PodPhase where "PodPending = ''Pending''"
definition PodRunning :: PodPhase where "PodRunning = ''Running''"
definition PodSucceeded :: PodPhase where "PodSucceeded = ''Succeeded''"
definition PodFailed :: PodPhase where "PodFailed = ''Failed''"
definition PodUnknown :: PodPhase where "PodUnknown = ''Unknown''"

text \<open>
  A \<^verbatim>\<open>resource.Quantity\<close> is a decimal number, \<open>unscaled * 10 ^ scale\<close>, and
  \<^verbatim>\<open>Cmp\<close> compares the numbers (\<open>1000m\<close> and \<open>1\<close> are equal): \<open>-1\<close>, \<open>0\<close> or
  \<open>1\<close>.
\<close>

record Quantity =
  unscaled :: int
  scale :: int

definition Cmp :: "Quantity \<Rightarrow> Quantity \<Rightarrow> int" where
  "Cmp q y =
     (let e = min (scale q) (scale y);
          a = unscaled q * 10 ^ nat (scale q - e);
          b = unscaled y * 10 ^ nat (scale y - e)
      in if a < b then - 1 else if a = b then 0 else 1)"

text \<open>
  A \<^verbatim>\<open>ResourceList\<close> is a Go map from resource names to quantities. A Go map is
  modelled by the list of its entries, with pairwise distinct keys: \<^verbatim>\<open>len\<close> is the
  length, a lookup is \<^const>\<open>map_of\<close>, \<^verbatim>\<open>range\<close> visits the entries (Go fixes no
  order; the list's order is one of them), \<^verbatim>\<open>m[k] = v\<close> is \<^const>\<open>AList.update\<close>
  and \<^verbatim>\<open>delete(m, k)\<close> is \<^const>\<open>AList.delete\<close>.
\<close>

type_synonym ResourceName = string
type_synonym ResourceList = "(ResourceName \<times> Quantity) list"

record ResourceRequirements =
  Limits :: ResourceList
  Requests :: ResourceList

record Container =
  Name :: string
  Image :: string
  Resources :: ResourceRequirements

record PodSpec =
  Containers :: "Container list"

record PodStatus =
  Phase :: PodPhase

text \<open>\<^verbatim>\<open>DeletionTimestamp\<close> is a \<^verbatim>\<open>*metav1.Time\<close>: \<open>None\<close> is \<^verbatim>\<open>nil\<close>; a time is its Unix seconds.\<close>

record ObjectMeta =
  DeletionTimestamp :: "int option"

record Pod =
  ObjectMeta :: ObjectMeta
  Spec :: PodSpec
  Status :: PodStatus

record PodTemplateSpec =
  ObjectMeta :: ObjectMeta
  Spec :: PodSpec

record PodList =
  Items :: "Pod list"

section \<open>The RayCluster resource (apis/ray/v1alpha1)\<close>

text \<open>
  Modelled from the spec: the declarations of \<^verbatim>\<open>RayCluster\<close>, \<^verbatim>\<open>RayClusterSpec\<close> and
  \<^verbatim>\<open>WorkerGroupSpec\<close> (package \<^verbatim>\<open>rayiov1alpha1\<close>) are not among the sources. The spec
  gives a worker group the fields \<open>replicas\<close>, \<open>minReplicas\<close> and \<open>maxReplicas\<close>,
  "each an optional integer, absent meaning unset"; util.go reads them through a
  pointer (\<^verbatim>\<open>*nodeGroup.Replicas\<close>) and adds them to an \<^verbatim>\<open>int32\<close>, so each is an
  \<^verbatim>\<open>*int32\<close>, with \<open>None\<close> for the unset field.
\<close>

record WorkerGroupSpec =
  Replicas :: "int32 option"
  MinReplicas :: "int32 option"
  MaxReplicas :: "int32 option"

record RayClusterSpec =
  WorkerGroupSpecs :: "WorkerGroupSpec list"

record RayCluster =
  Spec :: RayClusterSpec

section \<open>ReplicaAggregator (util.go)\<close>

text \<open>
  The three functions \<^verbatim>\<open>CalculateDesiredReplicas\<close>, \<^verbatim>\<open>CalculateMinReplicas\<close> and
  \<^verbatim>\<open>CalculateMaxReplicas\<close> are the same loop over \<^verbatim>\<open>cluster.Spec.WorkerGroupSpecs\<close>,
  \<^verbatim>\<open>count += *nodeGroup.F\<close>, for the three fields \<open>F\<close>. Reading through a \<^verbatim>\<open>nil\<close>
  pointer panics, and so does reading the fields of a \<^verbatim>\<open>nil\<close> cluster.
\<close>

fun sum_field :: "(WorkerGroupSpec \<Rightarrow> int32 option) \<Rightarrow> int32 \<Rightarrow> WorkerGroupSpec list \<Rightarrow> panic + int32" where
  "sum_field F count [] = Inr count"
| "sum_field F count (nodeGroup # rest) =
     (case F nodeGroup of
        None \<Rightarrow> Inl NilPointerDereference
      | Some n \<Rightarrow> sum_field F (count + n) rest)"

definition CalculateDesiredReplicas :: "RayCluster option \<Rightarrow> panic + int32" where
  "CalculateDesiredReplicas cluster =
     (case cluster of
        None \<Rightarrow> Inl NilPointerDereference
      | Some c \<Rightarrow> sum_field Replicas 0 (WorkerGroupSpecs (RayCluster.Spec c)))"

definition CalculateMinReplicas :: "RayCluster option \<Rightarrow> panic + int32" where
  "CalculateMinReplicas cluster =
     (case cluster of
        None \<Rightarrow> Inl NilPointerDereference
      | Some c \<Rightarrow> sum_field MinReplicas 0 (WorkerGroupSpecs (RayCluster.Spec c)))"

definition CalculateMaxReplicas :: "RayCluster option \<Rightarrow> panic + int32" where
  "CalculateMaxReplicas cluster =
     (case cluster of
        None \<Rightarrow> Inl NilPointerDereference
      | Some c \<Rightarrow> sum_field MaxReplicas 0 (WorkerGroupSpecs (RayCluster.Spec c)))"

text \<open>\<^verbatim>\<open>CalculateAvailableReplicas\<close>: the loop over \<^verbatim>\<open>pods.Items\<close>, then the function.\<close>

fun count_available :: "int32 \<Rightarrow> Pod list \<Rightarrow> int32" where
  "count_available count [] = count"
| "count_available count (pod # rest) =
     count_available
       (if Phase (Status pod) = PodPending \<or> Phase (Status pod) = PodRunning
        then count + 1 else count)
       rest"

definition CalculateAvailableReplicas :: "PodList \<Rightarrow> int32" where
  "CalculateAvailableReplicas pods = count_available 0 (Items pods)"

section \<open>PodSpecComparator: \<^verbatim>\<open>PodNotMatchingTemplate\<close> (util.go)\<close>

text \<open>
  The function builds \<^verbatim>\<open>cmap := map[string]*corev1.Container{}\<close> with
  \<^verbatim>\<open>for _, container := range pod.Spec.Containers { cmap[container.Name] = &container }\<close>:
  the map holds pointers to the loop variable, not copies of the containers, so what a
  later \<^verbatim>\<open>cmap[name]\<close> yields depends on where that variable lives. The heap of
  \<^verbatim>\<open>Container\<close> variables is therefore explicit: a pointer is an address, the heap
  gives the value stored there (the zero value where nothing has been stored), and
  \<^verbatim>\<open>container2.Image\<close> reads the heap at the address found in the map.

  The language fixes the variable of a \<^verbatim>\<open>range\<close> loop in one of two ways. Up to Go 1.21
  the loop has a single variable, assigned anew in each iteration (\<open>PerLoop\<close>); from
  Go 1.22 on, for a module whose go.mod asks for it, each iteration has a variable of its
  own (\<open>PerIteration\<close>). The module's go.mod is not among the sources, so the rule is
  a parameter of the model; the repository predates Go 1.22 (it imports \<^verbatim>\<open>io/ioutil\<close>
  and uses the kubebuilder v3 layout), which is \<open>PerLoop\<close>.
\<close>

datatype loopvar = PerLoop | PerIteration

type_synonym addr = nat
type_synonym heap = "addr \<Rightarrow> Container"

definition zero_Container :: Container where
  "zero_Container = \<lparr>Name = [], Image = [], Resources = \<lparr>Limits = [], Requests = []\<rparr>\<rparr>"

definition empty_heap :: heap where
  "empty_heap = (\<lambda>_. zero_Container)"

text \<open>The address of the variable \<^verbatim>\<open>container\<close> in iteration \<open>i\<close> of the first loop.\<close>

definition container_var :: "loopvar \<Rightarrow> nat \<Rightarrow> addr" where
  "container_var lv i = (case lv of PerLoop \<Rightarrow> 0 | PerIteration \<Rightarrow> i)"

text \<open>
  The first loop: iteration \<open>i\<close> assigns the \<open>i\<close>-th container of the pod to the loop
  variable and stores the variable's address under the container's name.
\<close>

fun fill_cmap :: "loopvar \<Rightarrow> nat \<Rightarrow> Container list \<Rightarrow> (string \<times> addr) list \<times> heap \<Rightarrow> (string \<times> addr) list \<times> heap" where
  "fill_cmap lv i [] (cmap, h) = (cmap, h)"
| "fill_cmap lv i (container # rest) (cmap, h) =
     (let p = container_var lv i;
          h' = h(p := container)
      in fill_cmap lv (Suc i) rest (AList.update (Name container) p cmap, h'))"

text \<open>
  The innermost loop, \<^verbatim>\<open>for name, quantity1 := range resources1[i]\<close>: \<open>True\<close> when it
  reaches a \<^verbatim>\<open>return true\<close>, \<open>False\<close> when it runs to its end.
\<close>

fun quantities_differ :: "ResourceList \<Rightarrow> ResourceList \<Rightarrow> bool" where
  "quantities_differ [] resources2 = False"
| "quantities_differ ((name, quantity1) # rest) resources2 =
     (case map_of resources2 name of
        Some quantity2 \<Rightarrow>
          if Cmp quantity1 quantity2 \<noteq> 0 then True else quantities_differ rest resources2
      | None \<Rightarrow> True)"

text \<open>
  The second loop, over \<^verbatim>\<open>template.Spec.Containers\<close>, followed by the test
  \<^verbatim>\<open>len(cmap) != 0\<close>: the value that \<^verbatim>\<open>PodNotMatchingTemplate\<close> returns once the map
  is built. The loop over \<^verbatim>\<open>resources1\<close> visits the requests, then the limits.
\<close>

fun match_template :: "Container list \<Rightarrow> (string \<times> addr) list \<Rightarrow> heap \<Rightarrow> bool" where
  "match_template [] cmap h = (length cmap \<noteq> 0)"
| "match_template (container1 # rest) cmap h =
     (case map_of cmap (Name container1) of
        Some p \<Rightarrow>
          (let container2 = h p in
           if Image container1 \<noteq> Image container2 then True
           else if length (Requests (Resources container1)) \<noteq> length (Requests (Resources container2)) \<or>
                   length (Limits (Resources container1)) \<noteq> length (Limits (Resources container2))
           then True
           else if quantities_differ (Requests (Resources container1)) (Requests (Resources container2))
           then True
           else if quantities_differ (Limits (Resources container1)) (Limits (Resources container2))
           then True
           else match_template rest (AList.delete (Name container1) cmap) h)
      | None \<Rightarrow> True)"

definition PodNotMatchingTemplate :: "loopvar \<Rightarrow> Pod \<Rightarrow> PodTemplateSpec \<Rightarrow> bool" where
  "PodNotMatchingTemplate lv pod template =
     (if Phase (Status pod) = PodRunning \<and> DeletionTimestamp (Pod.ObjectMeta pod) = None
      then
        if length (Containers (PodTemplateSpec.Spec template)) \<noteq> length (Containers (Pod.Spec pod))
        then True
        else
          (case fill_cmap lv 0 (Containers (Pod.Spec pod)) ([], empty_heap) of
             (cmap, h) \<Rightarrow> match_template (Containers (PodTemplateSpec.Spec template)) cmap h)
      else False)"

text \<open>
  What it is for two containers of the same name to agree, in the words of the spec: the
  same image reference, and resource requests and limits that are the same map up to
  the numeric value of each quantity (the same resource names, each with quantities that
  compare equal).
\<close>

definition resources_agree :: "ResourceList \<Rightarrow> ResourceList \<Rightarrow> bool" where
  "resources_agree r1 r2 =
     (distinct (map fst r1) \<and> distinct (map fst r2) \<and> set (map fst r1) = set (map fst r2) \<and>
      (\<forall>(n1, q1) \<in> set r1. \<forall>(n2, q2) \<in> set r2. n1 = n2 \<longrightarrow> Cmp q1 q2 = 0))"

definition containers_agree :: "Container \<Rightarrow> Container \<Rightarrow> bool" where
  "containers_agree c1 c2 =
     (Image c1 = Image c2 \<and>
      resources_agree (Requests (Container.Resources c1)) (Requests (Container.Resources c2)) \<and>
      resources_agree (Limits (Container.Resources c1)) (Limits (Container.Resources c2)))"

section \<open>StructuralEqualityComparator: \<^verbatim>\<open>CompareJsonStruct\<close> (util.go)\<close>

text \<open>
  A Go \<^verbatim>\<open>error\<close> is a value with a message.
\<close>

datatype error = Error string



section \<open>The serving specification, desired (apis/ray/v1alpha1) and on the wire (serve_httpclient.go)\<close>

text \<open>
  A \<^verbatim>\<open>float64\<close> is only copied, never computed on: it is its 64 bits. A value of
  type \<^verbatim>\<open>interface{}\<close> as the YAML and JSON decoders build it is a tree, and a
  \<^verbatim>\<open>map[string]interface{}\<close> is the list of its entries (a \<^verbatim>\<open>nil\<close> map and an empty
  map are both the empty list).
\<close>

type_synonym float64 = "64 word"

datatype iface =
  IfNil | IfBool bool | IfInt int | IfFloat float64 | IfString string
  | IfSlice "iface list" | IfMap "(string \<times> iface) list"

type_synonym JsonMap = "(string \<times> iface) list"

text \<open>
  Modelled from the spec: the declarations of \<^verbatim>\<open>ServeConfigSpec\<close>,
  \<^verbatim>\<open>RayActorOptionSpec\<close> and \<^verbatim>\<open>ServeDeploymentGraphSpec\<close> of package
  \<^verbatim>\<open>rayv1alpha1\<close> are not among the sources. By the spec a desired
  \<open>ServeConfigSpec\<close> has the fields of the wire object ("name, replica count, route
  prefix, concurrency limit, user-supplied config blob, autoscaling config blob,
  health-check/shutdown timing, and nested actor resource options"), its blobs
  \<open>userConfig\<close>, \<open>autoscalingConfig\<close>, \<open>runtimeEnv\<close> and \<open>resources\<close> being
  "serialized text"; serve_httpclient.go reads them as \<^verbatim>\<open>config.Name\<close>,
  \<^verbatim>\<open>[]byte(config.UserConfig)\<close> and so on, and assigns the others to the wire fields of
  the same types.
\<close>

record rayv1alpha1_RayActorOptionSpec =
  RuntimeEnv :: string
  NumCpus :: "float64 option"
  NumGpus :: "float64 option"
  Memory :: "int32 option"
  ObjectStoreMemory :: "int32 option"
  Resources :: string
  AcceleratorType :: string

record rayv1alpha1_ServeConfigSpec =
  Name :: string
  NumReplicas :: "int32 option"
  RoutePrefix :: string
  MaxConcurrentQueries :: "int32 option"
  UserConfig :: string
  AutoscalingConfig :: string
  GracefulShutdownWaitLoopS :: "int32 option"
  GracefulShutdownTimeoutS :: "int32 option"
  HealthCheckPeriodS :: "int32 option"
  HealthCheckTimeoutS :: "int32 option"
  RayActorOptions :: rayv1alpha1_RayActorOptionSpec

record rayv1alpha1_ServeDeploymentGraphSpec =
  ImportPath :: string
  RuntimeEnv :: string
  ServeConfigSpecs :: "rayv1alpha1_ServeConfigSpec list"

text \<open>The wire objects, as serve_httpclient.go declares them.\<close>

record RayActorOptionSpec =
  RuntimeEnv :: JsonMap
  NumCpus :: "float64 option"
  NumGpus :: "float64 option"
  Memory :: "int32 option"
  ObjectStoreMemory :: "int32 option"
  Resources :: JsonMap
  AcceleratorType :: string

record ServeConfigSpec =
  Name :: string
  NumReplicas :: "int32 option"
  RoutePrefix :: string
  MaxConcurrentQueries :: "int32 option"
  UserConfig :: JsonMap
  AutoscalingConfig :: JsonMap
  GracefulShutdownWaitLoopS :: "int32 option"
  GracefulShutdownTimeoutS :: "int32 option"
  HealthCheckPeriodS :: "int32 option"
  HealthCheckTimeoutS :: "int32 option"
  RayActorOptions :: RayActorOptionSpec

record ServingClusterDeployments =
  ImportPath :: string
  RuntimeEnv :: JsonMap
  Deployments :: "ServeConfigSpec list"

text \<open>The zero value of a wire object, which \<^verbatim>\<open>make([]ServeConfigSpec, n)\<close> fills the slice with.\<close>

definition zero_ServeConfigSpec :: ServeConfigSpec where
  "zero_ServeConfigSpec =
     \<lparr>ServeConfigSpec.Name = [], NumReplicas = None, RoutePrefix = [],
      MaxConcurrentQueries = None, UserConfig = [], AutoscalingConfig = [],
      GracefulShutdownWaitLoopS = None, GracefulShutdownTimeoutS = None,
      HealthCheckPeriodS = None, HealthCheckTimeoutS = None,
      RayActorOptions =
        \<lparr>RayActorOptionSpec.RuntimeEnv = [], NumCpus = None, NumGpus = None, Memory = None,
         ObjectStoreMemory = None, Resources = [], AcceleratorType = []\<rparr>\<rparr>"

section \<open>ConfigTranslator: \<^verbatim>\<open>ConvertServeConfig\<close> (serve_httpclient.go)\<close>

text \<open>
  \<^verbatim>\<open>yaml.Unmarshal\<close> (package k8s.io/apimachinery/pkg/util/yaml) is a parameter: given
  the text and the map it is to fill, it returns its error, if any, and the map as it
  leaves it. The code makes an empty map, calls \<^verbatim>\<open>Unmarshal\<close> on it and drops the
  error (\<^verbatim>\<open>_ = yaml.Unmarshal(...)\<close>): \<open>decode\<close>.
\<close>

type_synonym yaml_decoder = "string \<Rightarrow> JsonMap \<Rightarrow> error option \<times> JsonMap"

definition decode :: "yaml_decoder \<Rightarrow> string \<Rightarrow> JsonMap" where
  "decode yaml_Unmarshal text = snd (yaml_Unmarshal text [])"

text \<open>
  The body of the loop \<^verbatim>\<open>for i, config := range specs\<close> decodes the four blobs of
  \<open>config\<close> and builds the wire object \<^verbatim>\<open>ServeConfigSpec{...}\<close>: \<open>wire_object\<close>.
\<close>

definition wire_object :: "yaml_decoder \<Rightarrow> rayv1alpha1_ServeConfigSpec \<Rightarrow> ServeConfigSpec" where
  "wire_object yaml_Unmarshal config =
     (let userConfig = decode yaml_Unmarshal (rayv1alpha1_ServeConfigSpec.UserConfig config);
          autoscalingConfig = decode yaml_Unmarshal (rayv1alpha1_ServeConfigSpec.AutoscalingConfig config);
          runtimeEnv = decode yaml_Unmarshal
            (rayv1alpha1_RayActorOptionSpec.RuntimeEnv (rayv1alpha1_ServeConfigSpec.RayActorOptions config));
          resources = decode yaml_Unmarshal
            (rayv1alpha1_RayActorOptionSpec.Resources (rayv1alpha1_ServeConfigSpec.RayActorOptions config))
      in \<lparr>ServeConfigSpec.Name = rayv1alpha1_ServeConfigSpec.Name config,
          NumReplicas = rayv1alpha1_ServeConfigSpec.NumReplicas config,
          RoutePrefix = rayv1alpha1_ServeConfigSpec.RoutePrefix config,
          MaxConcurrentQueries = rayv1alpha1_ServeConfigSpec.MaxConcurrentQueries config,
          UserConfig = userConfig,
          AutoscalingConfig = autoscalingConfig,
          GracefulShutdownWaitLoopS = rayv1alpha1_ServeConfigSpec.GracefulShutdownWaitLoopS config,
          GracefulShutdownTimeoutS = rayv1alpha1_ServeConfigSpec.GracefulShutdownTimeoutS config,
          HealthCheckPeriodS = rayv1alpha1_ServeConfigSpec.HealthCheckPeriodS config,
          HealthCheckTimeoutS = rayv1alpha1_ServeConfigSpec.GracefulShutdownTimeoutS config,
          RayActorOptions =
            \<lparr>RayActorOptionSpec.RuntimeEnv = runtimeEnv,
             NumCpus = rayv1alpha1_RayActorOptionSpec.NumCpus (rayv1alpha1_ServeConfigSpec.RayActorOptions config),
             NumGpus = rayv1alpha1_RayActorOptionSpec.NumGpus (rayv1alpha1_ServeConfigSpec.RayActorOptions config),
             Memory = rayv1alpha1_RayActorOptionSpec.Memory (rayv1alpha1_ServeConfigSpec.RayActorOptions config),
             ObjectStoreMemory =
               rayv1alpha1_RayActorOptionSpec.ObjectStoreMemory (rayv1alpha1_ServeConfigSpec.RayActorOptions config),
             Resources = resources,
             AcceleratorType =
               rayv1alpha1_RayActorOptionSpec.AcceleratorType (rayv1alpha1_ServeConfigSpec.RayActorOptions config)\<rparr>\<rparr>)"

text \<open>
  The loop stores the wire object of \<open>config\<close> at index \<open>i\<close>
  (\<^verbatim>\<open>serveConfigToSend[i] = ...\<close>), and the function runs it from index 0 on a slice
  of \<^verbatim>\<open>len(specs)\<close> zero values, so every index is in range. The receiver \<^verbatim>\<open>r\<close> is
  not used by the method.
\<close>

fun convert_loop :: "yaml_decoder \<Rightarrow> nat \<Rightarrow> rayv1alpha1_ServeConfigSpec list \<Rightarrow> ServeConfigSpec list \<Rightarrow> ServeConfigSpec list" where
  "convert_loop yaml_Unmarshal i [] serveConfigToSend = serveConfigToSend"
| "convert_loop yaml_Unmarshal i (config # rest) serveConfigToSend =
     convert_loop yaml_Unmarshal (Suc i) rest
       (serveConfigToSend[i := wire_object yaml_Unmarshal config])"

definition ConvertServeConfig :: "yaml_decoder \<Rightarrow> rayv1alpha1_ServeConfigSpec list \<Rightarrow> ServeConfigSpec list" where
  "ConvertServeConfig yaml_Unmarshal specs =
     convert_loop yaml_Unmarshal 0 specs (replicate (length specs) zero_ServeConfigSpec)"

section \<open>DashboardSyncClient: \<^verbatim>\<open>UpdateDeployments\<close> (serve_httpclient.go)\<close>

text \<open>
  The client holds the dashboard's URL and an \<^verbatim>\<open>http.Client\<close>, of which the timeout is
  kept (in nanoseconds, as a \<^verbatim>\<open>time.Duration\<close>). A request is what \<^verbatim>\<open>http.NewRequest\<close>
  is given, with its header; of a response the status code and the body are kept.
\<close>

record http_Client =
  Timeout :: int

record RayDashboardClient =
  client :: http_Client
  dashboardURL :: string

record Request =
  Method :: string
  URL :: string
  Body :: string
  Header :: "(string \<times> string list) list"

record Response =
  StatusCode :: int
  ResponseBody :: string

definition DeployPath :: string where
  "DeployPath = ''/api/serve/deployments/''"

definition StatusPath :: string where
  "StatusPath = ''/api/serve/deployments/status''"

definition InitClient :: "RayDashboardClient \<Rightarrow> string \<Rightarrow> RayDashboardClient" where
  "InitClient r url = r\<lparr>client := \<lparr>Timeout = 2 * 1000000000\<rparr>, dashboardURL := ''http://'' @ url\<rparr>"

text \<open>
  \<^verbatim>\<open>UpdateDeployments\<close> returns an \<^verbatim>\<open>error\<close>: \<open>None\<close> is \<^verbatim>\<open>nil\<close>. The library
  calls are parameters: \<^verbatim>\<open>yaml.Unmarshal\<close> as above, \<^verbatim>\<open>json.Marshal\<close> (the body or an
  error), \<^verbatim>\<open>http.NewRequest\<close> (the request or an error) and the round trip
  \<^verbatim>\<open>r.client.Do\<close> (the response, whatever its status, or the transport's error). The
  deferred \<^verbatim>\<open>resp.Body.Close()\<close> has no part in the result. The struct literal
  that the function serialises is \<open>servingClusterDeployments\<close>; the receiver \<^verbatim>\<open>r\<close>
  is a client that exists (not \<^verbatim>\<open>nil\<close>).
\<close>

definition servingClusterDeployments ::
  "yaml_decoder \<Rightarrow> rayv1alpha1_ServeDeploymentGraphSpec \<Rightarrow> ServingClusterDeployments" where
  "servingClusterDeployments yaml_Unmarshal specs =
     (let runtimeEnv = decode yaml_Unmarshal (rayv1alpha1_ServeDeploymentGraphSpec.RuntimeEnv specs)
      in \<lparr>ServingClusterDeployments.ImportPath = rayv1alpha1_ServeDeploymentGraphSpec.ImportPath specs,
          RuntimeEnv = runtimeEnv,
          Deployments = ConvertServeConfig yaml_Unmarshal (ServeConfigSpecs specs)\<rparr>)"

definition UpdateDeployments ::
  "yaml_decoder \<Rightarrow> (ServingClusterDeployments \<Rightarrow> error + string) \<Rightarrow>
   (string \<Rightarrow> string \<Rightarrow> string \<Rightarrow> error + Request) \<Rightarrow>
   (http_Client \<Rightarrow> Request \<Rightarrow> error + Response) \<Rightarrow>
   RayDashboardClient \<Rightarrow> rayv1alpha1_ServeDeploymentGraphSpec \<Rightarrow> error option" where
  "UpdateDeployments yaml_Unmarshal json_Marshal http_NewRequest client_Do r specs =
     (case json_Marshal (servingClusterDeployments yaml_Unmarshal specs) of
        Inl err \<Rightarrow> Some err
      | Inr deploymentJson \<Rightarrow>
          (case http_NewRequest ''PUT'' (dashboardURL r @ DeployPath) deploymentJson of
             Inl err \<Rightarrow> Some err
           | Inr req \<Rightarrow>
               (case client_Do (client r)
                       (req\<lparr>Header := AList.update ''Content-Type'' [''application/json''] (Header req)\<rparr>) of
                  Inl err \<Rightarrow> Some err
                | Inr resp \<Rightarrow> None)))"

section \<open>Example objects\<close>

text \<open>A pod with no containers in a given phase, not marked for deletion.\<close>

definition pod_in_phase :: "PodPhase \<Rightarrow> Pod" where
  "pod_in_phase ph =
     \<lparr>Pod.ObjectMeta = \<lparr>DeletionTimestamp = None\<rparr>, Pod.Spec = \<lparr>Containers = []\<rparr>,
      Status = \<lparr>Phase = ph\<rparr>\<rparr>"

text \<open>A container without resource entries, a running pod and a template of given containers.\<close>

definition plain_container :: "string \<Rightarrow> string \<Rightarrow> Container" where
  "plain_container name img =
     \<lparr>Container.Name = name, Image = img,
      Container.Resources = \<lparr>Limits = [], Requests = []\<rparr>\<rparr>"

definition running_pod :: "Container list \<Rightarrow> Pod" where
  "running_pod cs =
     \<lparr>Pod.ObjectMeta = \<lparr>DeletionTimestamp = None\<rparr>, Pod.Spec = \<lparr>Containers = cs\<rparr>,
      Status = \<lparr>Phase = PodRunning\<rparr>\<rparr>"

definition template_of :: "Container list \<Rightarrow> PodTemplateSpec" where
  "template_of cs =
     \<lparr>PodTemplateSpec.ObjectMeta = \<lparr>DeletionTimestamp = None\<rparr>,
      PodTemplateSpec.Spec = \<lparr>Containers = cs\<rparr>\<rparr>"

text \<open>
  A desired deployment whose graceful-shutdown timeout (20 s) and health-check timeout
  (30 s) differ, and a second one, without timings.
\<close>

definition no_actor_options :: rayv1alpha1_RayActorOptionSpec where
  "no_actor_options =
     \<lparr>rayv1alpha1_RayActorOptionSpec.RuntimeEnv = [], NumCpus = None, NumGpus = None,
      Memory = None, ObjectStoreMemory = None, Resources = [], AcceleratorType = []\<rparr>"

definition shallow_config :: rayv1alpha1_ServeConfigSpec where
  "shallow_config =
     \<lparr>rayv1alpha1_ServeConfigSpec.Name = ''shallow'', NumReplicas = Some 1,
      RoutePrefix = ''/shallow'', MaxConcurrentQueries = None, UserConfig = [],
      AutoscalingConfig = [], GracefulShutdownWaitLoopS = Some 2,
      GracefulShutdownTimeoutS = Some 20, HealthCheckPeriodS = Some 10,
      HealthCheckTimeoutS = Some 30, RayActorOptions = no_actor_options\<rparr>"

definition deep_config :: rayv1alpha1_ServeConfigSpec where
  "deep_config =
     \<lparr>rayv1alpha1_ServeConfigSpec.Name = ''deep'', NumReplicas = Some 2,
      RoutePrefix = ''/deep'', MaxConcurrentQueries = Some 100, UserConfig = [],
      AutoscalingConfig = [], GracefulShutdownWaitLoopS = None,
      GracefulShutdownTimeoutS = None, HealthCheckPeriodS = None,
      HealthCheckTimeoutS = None, RayActorOptions = no_actor_options\<rparr>"

text \<open>
  Library behaviour for the examples: a YAML decoder that finds no entries; a client
  \<open>r\<close> initialised for a dashboard; a \<^verbatim>\<open>json.Marshal\<close> and an \<^verbatim>\<open>http.NewRequest\<close>
  that succeed; a dashboard that answers every request with status 500.
\<close>

definition yaml_no_entries :: yaml_decoder where
  "yaml_no_entries text m = (None, m)"

definition sample_client :: RayDashboardClient where
  "sample_client = InitClient \<lparr>client = \<lparr>Timeout = 0\<rparr>, dashboardURL = []\<rparr> ''raycluster-head-svc:8265''"

definition marshal_ok :: "ServingClusterDeployments \<Rightarrow> error + string" where
  "marshal_ok d = Inr ''{}''"

definition new_request_ok :: "string \<Rightarrow> string \<Rightarrow> string \<Rightarrow> error + Request" where
  "new_request_ok method url body = Inr \<lparr>Method = method, URL = url, Body = body, Header = []\<rparr>"

definition do_status_500 :: "http_Client \<Rightarrow> Request \<Rightarrow> error + Response" where
  "do_status_500 c req = Inr \<lparr>StatusCode = 500, ResponseBody = ''Internal Server Error''\<rparr>"

definition sample_graph :: rayv1alpha1_ServeDeploymentGraphSpec where
  "sample_graph =
     \<lparr>rayv1alpha1_ServeDeploymentGraphSpec.ImportPath = ''fruit.deployment_graph'',
      RuntimeEnv = [], ServeConfigSpecs = [shallow_config, deep_config]\<rparr>"




section \<open>Properties of the NameSanitizer\<close>

lemma shorten_eq:
  "shorten m s = Inr (if length s > m then drop (length s - m) s else s)"
  by (simp add: shorten_def slice_from_def Let_def nat_diff_distrib')

lemma replace_leading_Cons:
  "replace_leading IsX (c # t) = Inr (if IsX c then CHR ''r'' # t else c # t)"
  by (simp add: replace_leading_def index0_def slice_from_def)

lemma replace_leading_Nil: "replace_leading IsX [] = Inl IndexOutOfRange"
  by (simp add: replace_leading_def index0_def)

lemma not_IsPunct_r: "\<not> IsPunct CHR ''r''"
  by (simp add: IsPunct_def)

lemma IsDigit_not_IsPunct: "IsDigit c \<Longrightarrow> \<not> IsPunct c"
  by (auto simp: IsDigit_def IsPunct_def)

lemma CheckName_Cons:
  assumes "(if length s > 50 then drop (length s - 50) s else s) = c # t"
  shows "CheckName s = Inr ((if IsDigit c \<or> IsPunct c then CHR ''r'' else c) # t)"
  using assms
  by (simp add: CheckName_def shorten_eq Let_def replace_leading_Cons not_IsPunct_r)

lemma CheckLabel_Cons:
  assumes "(if length s > 63 then drop (length s - 63) s else s) = c # t"
  shows "CheckLabel s = Inr ((if IsPunct c then CHR ''r'' else c) # t)"
  using assms
  by (simp add: CheckLabel_def shorten_eq Let_def replace_leading_Cons)

lemma kept_nonempty:
  assumes "s \<noteq> []" and "0 < m"
  shows "\<exists>c t. (if length s > m then drop (length s - m) s else s) = c # t"
proof -
  from assms have "(if length s > m then drop (length s - m) s else s) \<noteq> []"
    by auto
  then show ?thesis
    by (simp add: neq_Nil_conv)
qed

text \<open>
  C5. As stated (a leading digit or punctuation character of a label value becomes
  \<open>r\<close>) the claim fails: \<^verbatim>\<open>CheckLabel\<close> tests \<^verbatim>\<open>unicode.IsPunct\<close> only, and a label
  value that starts with a digit is returned as it is.
\<close>

theorem CheckLabel_keeps_leading_digit_counterexample:
  "IsDigit (CHR ''1'') \<and> CheckLabel ''1abc'' = Inr ''1abc'' \<and> CheckLabel ''1abc'' \<noteq> Inr ''rabc''"
  by (simp add: CheckLabel_def shorten_eq replace_leading_Cons IsPunct_def IsDigit_def)

text \<open>
  C5, amended. For every input string of \<^verbatim>\<open>CheckLabel\<close>, when \<open>c\<close> is the first
  character of the string that the length truncation (to the trailing 63 bytes) leaves
  and \<open>t\<close> is the rest of it: if \<open>c\<close> is a punctuation character the result is \<open>r\<close>
  followed by \<open>t\<close>, and otherwise (in particular when \<open>c\<close> is a digit) the result is
  the truncated string itself.
\<close>

theorem CheckLabel_replaces_leading_punct_only:
  assumes "(if length s > 63 then drop (length s - 63) s else s) = c # t"
  shows "(IsPunct c \<longrightarrow> CheckLabel s = Inr (CHR ''r'' # t)) \<and>
         (\<not> IsPunct c \<longrightarrow> CheckLabel s = Inr (c # t)) \<and>
         (IsDigit c \<longrightarrow> CheckLabel s = Inr (c # t))"
  using CheckLabel_Cons [OF assms] IsDigit_not_IsPunct [of c]
  by auto

theorem CheckLabel_replaces_leading_punct_only_witness:
  "CheckLabel ''-worker-group'' = Inr ''rworker-group'' \<and>
   CheckLabel ''2nd-group'' = Inr ''2nd-group''"
  using CheckLabel_replaces_leading_punct_only [of "''-worker-group''" "CHR ''-''" "''worker-group''"]
    CheckLabel_replaces_leading_punct_only [of "''2nd-group''" "CHR ''2''" "''nd-group''"]
  by (simp add: IsPunct_def IsDigit_def)

text \<open>
  C6. For every input string longer than 50 bytes, \<^verbatim>\<open>CheckName\<close> first drops bytes from
  the front so that exactly the trailing 50 remain, and then, if the first byte of the
  truncated string is a digit, replaces it with \<open>r\<close>. The result of \<^verbatim>\<open>CheckName\<close> has
  50 bytes; its last 49 are the last 49 of the input, and its first is \<open>r\<close> when the
  first of the trailing 50 is a digit (or a punctuation character) and that byte
  otherwise.
\<close>

theorem CheckName_truncates_front_then_replaces_digit:
  assumes "length s > 50"
  shows "shorten 50 s = Inr (drop (length s - 50) s) \<and>
         (\<exists>r. CheckName s = Inr r \<and> length r = 50 \<and>
              tl r = tl (drop (length s - 50) s) \<and>
              hd r = (if IsDigit (hd (drop (length s - 50) s)) \<or>
                         IsPunct (hd (drop (length s - 50) s))
                      then CHR ''r'' else hd (drop (length s - 50) s))) \<and>
         (IsDigit (hd (drop (length s - 50) s)) \<longrightarrow>
            CheckName s = Inr (CHR ''r'' # tl (drop (length s - 50) s)))"
proof -
  let ?k = "drop (length s - 50) s"
  from assms have len: "length ?k = 50"
    by simp
  then obtain c t where ct: "?k = c # t"
    by (cases ?k) auto
  with assms have "(if length s > 50 then drop (length s - 50) s else s) = c # t"
    by simp
  from CheckName_Cons [OF this]
  have res: "CheckName s = Inr ((if IsDigit c \<or> IsPunct c then CHR ''r'' else c) # t)" .
  from len ct have t: "length t = 49"
    by simp
  from assms have "shorten 50 s = Inr ?k"
    by (simp add: shorten_eq)
  moreover from res t ct
  have "\<exists>r. CheckName s = Inr r \<and> length r = 50 \<and> tl r = tl ?k \<and>
            hd r = (if IsDigit (hd ?k) \<or> IsPunct (hd ?k) then CHR ''r'' else hd ?k)"
    by simp
  moreover from res ct have "IsDigit (hd ?k) \<longrightarrow> CheckName s = Inr (CHR ''r'' # tl ?k)"
    by simp
  ultimately show ?thesis
    by blast
qed

theorem CheckName_truncates_front_then_replaces_digit_witness:
  "length ''123-very-long-name-that-exceeds-the-fifty-character-budget-for-sure'' > 50 \<and>
   CheckName ''123-very-long-name-that-exceeds-the-fifty-character-budget-for-sure'' =
     Inr ''e-that-exceeds-the-fifty-character-budget-for-sure'' \<and>
   length ''ray-service-us-east-1-2024-raycluster-autoscaler-experiment-gpu-workers1'' > 50 \<and>
   CheckName ''ray-service-us-east-1-2024-raycluster-autoscaler-experiment-gpu-workers1'' =
     Inr ''r024-raycluster-autoscaler-experiment-gpu-workers1''"
proof -
  let ?a = "''123-very-long-name-that-exceeds-the-fifty-character-budget-for-sure''"
  let ?b = "''ray-service-us-east-1-2024-raycluster-autoscaler-experiment-gpu-workers1''"
  have la: "length ?a > 50" and lb: "length ?b > 50"
    by simp_all
  from CheckName_truncates_front_then_replaces_digit [OF la]
  obtain r where r: "CheckName ?a = Inr r" and "length r = 50"
    and tl: "tl r = tl (drop (length ?a - 50) ?a)"
    and hd: "hd r = (if IsDigit (hd (drop (length ?a - 50) ?a)) \<or>
                        IsPunct (hd (drop (length ?a - 50) ?a))
                     then CHR ''r'' else hd (drop (length ?a - 50) ?a))"
    by blast
  from \<open>length r = 50\<close> have "r = hd r # tl r"
    by (cases r) simp_all
  with tl hd have "r = ''e-that-exceeds-the-fifty-character-budget-for-sure''"
    by (simp add: IsDigit_def IsPunct_def)
  with r have a: "CheckName ?a = Inr ''e-that-exceeds-the-fifty-character-budget-for-sure''"
    by simp
  from CheckName_truncates_front_then_replaces_digit [OF lb]
  have b: "CheckName ?b = Inr ''r024-raycluster-autoscaler-experiment-gpu-workers1''"
    by (simp add: IsDigit_def)
  from la lb a b show ?thesis
    by blast
qed

text \<open>
  C10. \<^verbatim>\<open>CheckName\<close> and \<^verbatim>\<open>CheckLabel\<close> return a string for every non-empty input;
  on the empty string both panic with an index out of range, at the read of \<^verbatim>\<open>s[0]\<close>.
\<close>

theorem sanitizers_panic_exactly_on_empty:
  "(s \<noteq> [] \<longrightarrow> (\<exists>r. CheckName s = Inr r) \<and> (\<exists>r. CheckLabel s = Inr r)) \<and>
   CheckName [] = Inl IndexOutOfRange \<and> CheckLabel [] = Inl IndexOutOfRange"
proof -
  have "\<exists>r. CheckName s = Inr r" if "s \<noteq> []"
  proof -
    from kept_nonempty [OF that, of 50] obtain c t
      where "(if length s > 50 then drop (length s - 50) s else s) = c # t"
      by auto
    from CheckName_Cons [OF this] show ?thesis
      by blast
  qed
  moreover have "\<exists>r. CheckLabel s = Inr r" if "s \<noteq> []"
  proof -
    from kept_nonempty [OF that, of 63] obtain c t
      where "(if length s > 63 then drop (length s - 63) s else s) = c # t"
      by auto
    from CheckLabel_Cons [OF this] show ?thesis
      by blast
  qed
  moreover have "CheckName [] = Inl IndexOutOfRange"
    by (simp add: CheckName_def shorten_eq replace_leading_Nil)
  moreover have "CheckLabel [] = Inl IndexOutOfRange"
    by (simp add: CheckLabel_def shorten_eq replace_leading_Nil)
  ultimately show ?thesis
    by blast
qed

theorem sanitizers_panic_exactly_on_empty_witness:
  "''raycluster-sample'' \<noteq> [] \<and>
   (\<exists>r. CheckName ''raycluster-sample'' = Inr r) \<and>
   (\<exists>r. CheckLabel ''raycluster-sample'' = Inr r) \<and>
   CheckName [] = Inl IndexOutOfRange \<and> CheckLabel [] = Inl IndexOutOfRange"
  using sanitizers_panic_exactly_on_empty [of "''raycluster-sample''"]
  by simp

section \<open>Properties of the ReplicaAggregator\<close>

lemma sint_word_of_int_32: "sint (word_of_int k :: int32) = signed_take_bit 31 k"
  by (simp add: sint_sbintrunc')

lemma sint_word_of_nat_small:
  assumes "n < 2 ^ 31"
  shows "sint (word_of_nat n :: int32) = int n"
proof -
  have "sint (word_of_nat n :: int32) = sint (word_of_int (int n) :: int32)"
    by simp
  also have "\<dots> = signed_take_bit 31 (int n)"
    by (rule sint_word_of_int_32)
  also from assms have "\<dots> = int n"
    by (simp add: signed_take_bit_int_eq_self_iff)
  finally show ?thesis .
qed

text \<open>
  The \<^verbatim>\<open>int32\<close> sum of a list, read as a signed number, is the sum of the signed
  numbers whenever that sum is an \<^verbatim>\<open>int32\<close>.
\<close>

lemma word_of_int_sum_list_sint:
  "word_of_int (sum_list (map sint rs)) = sum_list (rs :: int32 list)"
  by (induction rs) simp_all

lemma sint_sum_list_small:
  assumes "- (2 ^ 31) \<le> sum_list (map sint rs)" and "sum_list (map sint rs) < 2 ^ 31"
  shows "sint (sum_list (rs :: int32 list)) = sum_list (map sint rs)"
proof -
  have "sint (sum_list rs) = sint (word_of_int (sum_list (map sint rs)) :: int32)"
    by (simp only: word_of_int_sum_list_sint)
  also have "\<dots> = signed_take_bit 31 (sum_list (map sint rs))"
    by (rule sint_word_of_int_32)
  also from assms have "\<dots> = sum_list (map sint rs)"
    by (simp add: signed_take_bit_int_eq_self_iff)
  finally show ?thesis .
qed

lemma sum_field_all_set:
  "map F gs = map Some rs \<Longrightarrow> sum_field F count gs = Inr (count + sum_list rs)"
proof (induction gs arbitrary: count rs)
  case Nil
  then show ?case by simp
next
  case (Cons g gs)
  then obtain r rs' where rs: "rs = r # rs'" and r: "F g = Some r" and rest: "map F gs = map Some rs'"
    by (cases rs) auto
  from Cons.IH [OF rest, of "count + r"] rs r show ?case
    by (simp add: add.assoc)
qed

lemma sum_field_some_unset:
  "None \<in> set (map F gs) \<Longrightarrow> sum_field F count gs = Inl NilPointerDereference"
proof (induction gs arbitrary: count)
  case Nil
  then show ?case by simp
next
  case (Cons g gs)
  show ?case
  proof (cases "F g")
    case None
    then show ?thesis by simp
  next
    case (Some n)
    with Cons.prems have "None \<in> set (map F gs)"
      by auto
    from Cons.IH [OF this] Some show ?thesis
      by simp
  qed
qed

text \<open>
  C2. As stated (an unset field counts as zero and the aggregators never fail) the claim
  fails: the aggregators read each field through its pointer without a \<^verbatim>\<open>nil\<close> test,
  so one worker group with \<open>replicas\<close> unset makes \<^verbatim>\<open>CalculateDesiredReplicas\<close> panic,
  and likewise for the other two.
\<close>

theorem aggregators_unset_field_counterexample:
  "CalculateDesiredReplicas
     (Some \<lparr>RayCluster.Spec = \<lparr>WorkerGroupSpecs =
        [\<lparr>Replicas = Some 2, MinReplicas = Some 1, MaxReplicas = Some 4\<rparr>,
         \<lparr>Replicas = None, MinReplicas = None, MaxReplicas = None\<rparr>]\<rparr>\<rparr>)
     = Inl NilPointerDereference \<and>
   CalculateMinReplicas
     (Some \<lparr>RayCluster.Spec = \<lparr>WorkerGroupSpecs =
        [\<lparr>Replicas = Some 2, MinReplicas = Some 1, MaxReplicas = Some 4\<rparr>,
         \<lparr>Replicas = None, MinReplicas = None, MaxReplicas = None\<rparr>]\<rparr>\<rparr>)
     = Inl NilPointerDereference \<and>
   CalculateMaxReplicas
     (Some \<lparr>RayCluster.Spec = \<lparr>WorkerGroupSpecs =
        [\<lparr>Replicas = Some 2, MinReplicas = Some 1, MaxReplicas = Some 4\<rparr>,
         \<lparr>Replicas = None, MinReplicas = None, MaxReplicas = None\<rparr>]\<rparr>\<rparr>)
     = Inl NilPointerDereference"
  by (simp add: CalculateDesiredReplicas_def CalculateMinReplicas_def CalculateMaxReplicas_def)

text \<open>
  C2, amended. For every worker-group list in which every group has the respective field
  set, \<^verbatim>\<open>CalculateDesiredReplicas\<close>, \<^verbatim>\<open>CalculateMinReplicas\<close> and
  \<^verbatim>\<open>CalculateMaxReplicas\<close> return the sum of that field over all groups (the
  \<^verbatim>\<open>int32\<close> sum) and do not fail; when some group has the field unset, the aggregator
  of that field fails with a nil-pointer dereference instead of counting zero.
\<close>

theorem aggregators_sum_set_fields:
  "(map Replicas (WorkerGroupSpecs (RayCluster.Spec c)) = map Some rs \<longrightarrow>
      CalculateDesiredReplicas (Some c) = Inr (sum_list rs)) \<and>
   (map MinReplicas (WorkerGroupSpecs (RayCluster.Spec c)) = map Some mins \<longrightarrow>
      CalculateMinReplicas (Some c) = Inr (sum_list mins)) \<and>
   (map MaxReplicas (WorkerGroupSpecs (RayCluster.Spec c)) = map Some maxs \<longrightarrow>
      CalculateMaxReplicas (Some c) = Inr (sum_list maxs)) \<and>
   (None \<in> set (map Replicas (WorkerGroupSpecs (RayCluster.Spec c))) \<longrightarrow>
      CalculateDesiredReplicas (Some c) = Inl NilPointerDereference) \<and>
   (None \<in> set (map MinReplicas (WorkerGroupSpecs (RayCluster.Spec c))) \<longrightarrow>
      CalculateMinReplicas (Some c) = Inl NilPointerDereference) \<and>
   (None \<in> set (map MaxReplicas (WorkerGroupSpecs (RayCluster.Spec c))) \<longrightarrow>
      CalculateMaxReplicas (Some c) = Inl NilPointerDereference)"
  using sum_field_all_set [of Replicas "WorkerGroupSpecs (RayCluster.Spec c)" rs 0]
    sum_field_all_set [of MinReplicas "WorkerGroupSpecs (RayCluster.Spec c)" mins 0]
    sum_field_all_set [of MaxReplicas "WorkerGroupSpecs (RayCluster.Spec c)" maxs 0]
    sum_field_some_unset [of Replicas "WorkerGroupSpecs (RayCluster.Spec c)" 0]
    sum_field_some_unset [of MinReplicas "WorkerGroupSpecs (RayCluster.Spec c)" 0]
    sum_field_some_unset [of MaxReplicas "WorkerGroupSpecs (RayCluster.Spec c)" 0]
  by (simp add: CalculateDesiredReplicas_def CalculateMinReplicas_def CalculateMaxReplicas_def)

theorem aggregators_sum_set_fields_witness:
  "CalculateDesiredReplicas
     (Some \<lparr>RayCluster.Spec = \<lparr>WorkerGroupSpecs =
        [\<lparr>Replicas = Some 2, MinReplicas = Some 1, MaxReplicas = None\<rparr>,
         \<lparr>Replicas = Some 3, MinReplicas = Some 0, MaxReplicas = Some 5\<rparr>]\<rparr>\<rparr>) = Inr 5 \<and>
   CalculateMinReplicas
     (Some \<lparr>RayCluster.Spec = \<lparr>WorkerGroupSpecs =
        [\<lparr>Replicas = Some 2, MinReplicas = Some 1, MaxReplicas = None\<rparr>,
         \<lparr>Replicas = Some 3, MinReplicas = Some 0, MaxReplicas = Some 5\<rparr>]\<rparr>\<rparr>) = Inr 1 \<and>
   CalculateMaxReplicas
     (Some \<lparr>RayCluster.Spec = \<lparr>WorkerGroupSpecs =
        [\<lparr>Replicas = Some 2, MinReplicas = Some 1, MaxReplicas = None\<rparr>,
         \<lparr>Replicas = Some 3, MinReplicas = Some 0, MaxReplicas = Some 5\<rparr>]\<rparr>\<rparr>)
     = Inl NilPointerDereference"
  using aggregators_sum_set_fields
    [of "\<lparr>RayCluster.Spec = \<lparr>WorkerGroupSpecs =
        [\<lparr>Replicas = Some 2, MinReplicas = Some 1, MaxReplicas = None\<rparr>,
         \<lparr>Replicas = Some 3, MinReplicas = Some 0, MaxReplicas = Some 5\<rparr>]\<rparr>\<rparr>"
        "[2, 3]" "[1, 0]" "[]"]
  by simp

lemma count_available_eq:
  "count_available count pods =
     count + word_of_nat (length (filter (\<lambda>pod. Phase (Status pod) = PodPending \<or>
                                              Phase (Status pod) = PodRunning) pods))"
  by (induction pods arbitrary: count) simp_all

text \<open>
  C8. For every pod list, \<^verbatim>\<open>CalculateAvailableReplicas\<close> returns the number of pods
  whose phase is \<open>Pending\<close> or \<open>Running\<close>, as an \<^verbatim>\<open>int32\<close>; pods in any other phase
  add nothing. Read as a signed number the result is that count whenever the count is
  below \<open>2^31\<close>.
\<close>

theorem CalculateAvailableReplicas_counts_pending_and_running:
  "CalculateAvailableReplicas pods =
     word_of_nat (length (filter (\<lambda>pod. Phase (Status pod) = PodPending \<or>
                                         Phase (Status pod) = PodRunning) (Items pods))) \<and>
   (length (filter (\<lambda>pod. Phase (Status pod) = PodPending \<or>
                           Phase (Status pod) = PodRunning) (Items pods)) < 2 ^ 31 \<longrightarrow>
    sint (CalculateAvailableReplicas pods) =
      int (length (filter (\<lambda>pod. Phase (Status pod) = PodPending \<or>
                                  Phase (Status pod) = PodRunning) (Items pods))))"
  by (simp add: CalculateAvailableReplicas_def count_available_eq sint_word_of_nat_small)

theorem CalculateAvailableReplicas_counts_pending_and_running_witness:
  "CalculateAvailableReplicas
     \<lparr>Items = [pod_in_phase PodRunning, pod_in_phase PodRunning, pod_in_phase PodRunning,
               pod_in_phase PodFailed, pod_in_phase PodPending]\<rparr> = 4 \<and>
   sint (CalculateAvailableReplicas
     \<lparr>Items = [pod_in_phase PodRunning, pod_in_phase PodRunning, pod_in_phase PodRunning,
               pod_in_phase PodFailed, pod_in_phase PodPending]\<rparr>) = 4"
  using CalculateAvailableReplicas_counts_pending_and_running
    [of "\<lparr>Items = [pod_in_phase PodRunning, pod_in_phase PodRunning, pod_in_phase PodRunning,
               pod_in_phase PodFailed, pod_in_phase PodPending]\<rparr>"]
  by (simp add: pod_in_phase_def PodRunning_def PodFailed_def PodPending_def)

section \<open>Properties of the ConfigTranslator\<close>

lemma convert_loop_eq:
  "i + length cfgs \<le> length out \<Longrightarrow>
   convert_loop y i cfgs out = take i out @ map (wire_object y) cfgs @ drop (i + length cfgs) out"
proof (induction cfgs arbitrary: i out)
  case Nil
  then show ?case by simp
next
  case (Cons config rest)
  let ?out = "out[i := wire_object y config]"
  from Cons.prems have i: "i < length out" and le: "Suc i + length rest \<le> length ?out"
    by simp_all
  from i have "take (Suc i) ?out = take i out @ [wire_object y config]"
    by (simp add: take_Suc_conv_app_nth)
  moreover have "drop (Suc i + length rest) ?out = drop (Suc i + length rest) out"
    by simp
  ultimately show ?case
    using Cons.IH [OF le] by simp
qed

lemma ConvertServeConfig_map: "ConvertServeConfig y specs = map (wire_object y) specs"
  by (simp add: ConvertServeConfig_def convert_loop_eq)

lemma wire_object_copied_fields:
  "ServeConfigSpec.Name (wire_object y config) = rayv1alpha1_ServeConfigSpec.Name config \<and>
   ServeConfigSpec.NumReplicas (wire_object y config) = rayv1alpha1_ServeConfigSpec.NumReplicas config \<and>
   ServeConfigSpec.RoutePrefix (wire_object y config) = rayv1alpha1_ServeConfigSpec.RoutePrefix config \<and>
   ServeConfigSpec.MaxConcurrentQueries (wire_object y config) =
     rayv1alpha1_ServeConfigSpec.MaxConcurrentQueries config \<and>
   ServeConfigSpec.GracefulShutdownWaitLoopS (wire_object y config) =
     rayv1alpha1_ServeConfigSpec.GracefulShutdownWaitLoopS config \<and>
   ServeConfigSpec.GracefulShutdownTimeoutS (wire_object y config) =
     rayv1alpha1_ServeConfigSpec.GracefulShutdownTimeoutS config \<and>
   ServeConfigSpec.HealthCheckPeriodS (wire_object y config) =
     rayv1alpha1_ServeConfigSpec.HealthCheckPeriodS config"
  by (simp add: wire_object_def Let_def)

lemma wire_object_HealthCheckTimeoutS:
  "ServeConfigSpec.HealthCheckTimeoutS (wire_object y config) =
     rayv1alpha1_ServeConfigSpec.GracefulShutdownTimeoutS config"
  by (simp add: wire_object_def Let_def)

text \<open>
  C1. The claim (every scalar field is copied, and the wire field
  \<open>health_check_timeout_s\<close> is the spec's own \<open>HealthCheckTimeoutS\<close>) does not hold of
  the code: the struct literal assigns \<^verbatim>\<open>config.GracefulShutdownTimeoutS\<close> to
  \<^verbatim>\<open>HealthCheckTimeoutS\<close>, so the desired health-check timeout is never read. For the
  deployment \<open>shallow_config\<close>, whose health-check timeout is 30 and whose
  graceful-shutdown timeout is 20, the wire object carries a health-check timeout of 20,
  whatever the YAML decoder does.
\<close>

theorem ConvertServeConfig_health_check_timeout_is_shutdown_timeout:
  "rayv1alpha1_ServeConfigSpec.HealthCheckTimeoutS shallow_config = Some 30 \<and>
   rayv1alpha1_ServeConfigSpec.GracefulShutdownTimeoutS shallow_config = Some 20 \<and>
   map ServeConfigSpec.HealthCheckTimeoutS (ConvertServeConfig yaml_Unmarshal [shallow_config])
     = [Some 20]"
  by (simp add: ConvertServeConfig_def wire_object_def shallow_config_def Let_def)

text \<open>
  C9. For every list of \<open>n\<close> desired specs, \<^verbatim>\<open>ConvertServeConfig\<close> returns a list of
  \<open>n\<close> wire objects; the one at index \<open>i\<close> is the wire object built from the input at
  index \<open>i\<close>, and it carries that input's \<open>Name\<close>.
\<close>

theorem ConvertServeConfig_elementwise:
  "length (ConvertServeConfig y specs) = length specs \<and>
   (\<forall>i<length specs.
      ConvertServeConfig y specs ! i = wire_object y (specs ! i) \<and>
      ServeConfigSpec.Name (ConvertServeConfig y specs ! i) =
        rayv1alpha1_ServeConfigSpec.Name (specs ! i))"
  by (simp add: ConvertServeConfig_map wire_object_def Let_def)

theorem ConvertServeConfig_elementwise_witness:
  "length (ConvertServeConfig yaml_no_entries [shallow_config, deep_config]) = 2 \<and>
   ServeConfigSpec.Name (ConvertServeConfig yaml_no_entries [shallow_config, deep_config] ! 0) = ''shallow'' \<and>
   ServeConfigSpec.Name (ConvertServeConfig yaml_no_entries [shallow_config, deep_config] ! 1) = ''deep''"
proof -
  let ?specs = "[shallow_config, deep_config]"
  note t = ConvertServeConfig_elementwise [of yaml_no_entries ?specs]
  from t have len: "length (ConvertServeConfig yaml_no_entries ?specs) = length ?specs"
    by blast
  from t have names: "\<forall>i<length ?specs.
      ServeConfigSpec.Name (ConvertServeConfig yaml_no_entries ?specs ! i) =
        rayv1alpha1_ServeConfigSpec.Name (?specs ! i)"
    by blast
  from names have "ServeConfigSpec.Name (ConvertServeConfig yaml_no_entries ?specs ! 0) =
      rayv1alpha1_ServeConfigSpec.Name (?specs ! 0)"
    by (rule allE [of _ 0]) simp
  moreover from names have "ServeConfigSpec.Name (ConvertServeConfig yaml_no_entries ?specs ! 1) =
      rayv1alpha1_ServeConfigSpec.Name (?specs ! 1)"
    by (rule allE [of _ 1]) simp
  ultimately show ?thesis
    using len by (simp add: shallow_config_def deep_config_def)
qed

section \<open>Properties of the DashboardSyncClient\<close>

text \<open>
  C4. Whenever the request could be built (\<^verbatim>\<open>json.Marshal\<close> and \<^verbatim>\<open>http.NewRequest\<close>
  succeeded) and the round trip \<^verbatim>\<open>r.client.Do(req)\<close> returns a response \<open>resp\<close>
  rather than a transport error, \<^verbatim>\<open>UpdateDeployments\<close> returns \<^verbatim>\<open>nil\<close>, for every
  \<open>resp\<close>: its status code is not looked at.
\<close>

theorem UpdateDeployments_ignores_status:
  assumes "json_Marshal (servingClusterDeployments yaml_Unmarshal specs) = Inr deploymentJson"
    and "http_NewRequest ''PUT'' (dashboardURL r @ DeployPath) deploymentJson = Inr req"
    and "client_Do (client r)
           (req\<lparr>Header := AList.update ''Content-Type'' [''application/json''] (Header req)\<rparr>) = Inr resp"
  shows "UpdateDeployments yaml_Unmarshal json_Marshal http_NewRequest client_Do r specs = None"
  using assms by (simp add: UpdateDeployments_def)

theorem UpdateDeployments_ignores_status_witness:
  "do_status_500 (client sample_client)
     \<lparr>Method = ''PUT'', URL = ''http://raycluster-head-svc:8265/api/serve/deployments/'', Body = ''{}'',
      Header = [(''Content-Type'', [''application/json''])]\<rparr>
     = Inr \<lparr>StatusCode = 500, ResponseBody = ''Internal Server Error''\<rparr> \<and>
   UpdateDeployments yaml_no_entries marshal_ok new_request_ok do_status_500 sample_client sample_graph = None"
  using UpdateDeployments_ignores_status
    [of marshal_ok yaml_no_entries sample_graph "''{}''" new_request_ok sample_client
        "\<lparr>Method = ''PUT'', URL = ''http://raycluster-head-svc:8265/api/serve/deployments/'', Body = ''{}'', Header = []\<rparr>"
        do_status_500 "\<lparr>StatusCode = 500, ResponseBody = ''Internal Server Error''\<rparr>"]
  by (simp add: marshal_ok_def new_request_ok_def do_status_500_def sample_client_def InitClient_def DeployPath_def)

section \<open>Properties of the StructuralEqualityComparator\<close>




section \<open>Properties of the PodSpecComparator\<close>

text \<open>
  What the first loop builds. With one variable for the whole loop, every name is stored
  with the same address, and the heap holds the last container there. With a variable
  per iteration (and container names that are pairwise distinct) the \<open>i\<close>-th name is
  stored with the address of a variable that holds the \<open>i\<close>-th container.
\<close>

lemma fill_cmap_PerLoop:
  "fill_cmap PerLoop i cs (cmap, h) =
     (foldl (\<lambda>m c. AList.update (Container.Name c) 0 m) cmap cs,
      if cs = [] then h else h(0 := last cs))"
  by (induction cs arbitrary: i cmap h) (simp_all add: container_var_def Let_def)

lemma update_fresh: "k \<notin> fst ` set al \<Longrightarrow> AList.update k v al = al @ [(k, v)]"
  by (induction al) auto

lemma fill_cmap_PerIteration:
  assumes "distinct (map Container.Name cs)"
    and "set (map Container.Name cs) \<inter> fst ` set cmap = {}"
  shows "fill_cmap PerIteration i cs (cmap, h) =
     (cmap @ zip (map Container.Name cs) [i..<i + length cs],
      (\<lambda>a. if i \<le> a \<and> a < i + length cs then cs ! (a - i) else h a))"
  using assms
proof (induction cs arbitrary: i cmap h)
  case Nil
  have "(\<lambda>a. if i \<le> a \<and> a < i then [] ! (a - i) else h a) = h"
    by (rule ext) auto
  then show ?case by simp
next
  case (Cons c cs)
  let ?cmap = "cmap @ [(Container.Name c, i)]"
  from Cons.prems have fresh: "Container.Name c \<notin> fst ` set cmap"
    by auto
  from Cons.prems have d: "distinct (map Container.Name cs)"
    and disj: "set (map Container.Name cs) \<inter> fst ` set ?cmap = {}"
    by auto
  have upt: "[i..<i + length (c # cs)] = i # [Suc i..<Suc i + length cs]"
    using upt_rec [of i "Suc i + length cs"] by simp
  have heap: "(\<lambda>a. if Suc i \<le> a \<and> a < Suc i + length cs then cs ! (a - Suc i) else (h(i := c)) a) =
              (\<lambda>a. if i \<le> a \<and> a < i + length (c # cs) then (c # cs) ! (a - i) else h a)"
    by (rule ext) (auto simp: nth_Cons' Suc_diff_Suc less_Suc_eq_le le_Suc_eq)
  have "fill_cmap PerIteration i (c # cs) (cmap, h) =
        fill_cmap PerIteration (Suc i) cs (?cmap, h(i := c))"
    by (simp add: container_var_def update_fresh [OF fresh])
  also have "\<dots> = (?cmap @ zip (map Container.Name cs) [Suc i..<Suc i + length cs],
      (\<lambda>a. if Suc i \<le> a \<and> a < Suc i + length cs then cs ! (a - Suc i) else (h(i := c)) a))"
    by (rule Cons.IH [OF d disj])
  also have "\<dots> = (cmap @ zip (map Container.Name (c # cs)) [i..<i + length (c # cs)],
      (\<lambda>a. if i \<le> a \<and> a < i + length (c # cs) then (c # cs) ! (a - i) else h a))"
    unfolding heap upt by simp
  finally show ?case .
qed

lemma agree_not_differ_aux:
  "\<forall>(n, q1) \<in> set xs. \<exists>q2. map_of r2 n = Some q2 \<and> Cmp q1 q2 = 0 \<Longrightarrow> \<not> quantities_differ xs r2"
  by (induction xs) auto

lemma resources_agree_not_differ:
  assumes "resources_agree r1 r2"
  shows "\<not> quantities_differ r1 r2" and "length r1 = length r2"
proof -
  from assms have d1: "distinct (map fst r1)" and d2: "distinct (map fst r2)"
    and keys: "set (map fst r1) = set (map fst r2)"
    and cmp: "\<And>n q1 q2. (n, q1) \<in> set r1 \<Longrightarrow> (n, q2) \<in> set r2 \<Longrightarrow> Cmp q1 q2 = 0"
    by (auto simp: resources_agree_def)
  have "\<exists>q2. map_of r2 n = Some q2 \<and> Cmp q1 q2 = 0" if "(n, q1) \<in> set r1" for n q1
  proof -
    from that keys have "n \<in> fst ` set r2"
      by force
    then obtain q2 where q2: "(n, q2) \<in> set r2"
      by auto
    with d2 have "map_of r2 n = Some q2"
      by simp
    with cmp [OF that q2] show ?thesis
      by simp
  qed
  then show "\<not> quantities_differ r1 r2"
    by (intro agree_not_differ_aux) auto
  from d1 d2 keys have "card (set (map fst r1)) = length r1" "card (set (map fst r2)) = length r2"
    by (metis distinct_card length_map)+
  with keys show "length r1 = length r2"
    by simp
qed

lemma match_template_agree:
  assumes "distinct (map fst cmap)"
    and "distinct (map Container.Name ts)"
    and "set (map fst cmap) = set (map Container.Name ts)"
    and "\<forall>t \<in> set ts. \<forall>(n, p) \<in> set cmap. Container.Name t = n \<longrightarrow> containers_agree t (h p)"
  shows "\<not> match_template ts cmap h"
  using assms
proof (induction ts arbitrary: cmap)
  case Nil
  then show ?case by simp
next
  case (Cons t ts)
  let ?k = "Container.Name t"
  from Cons.prems(3) have "?k \<in> fst ` set cmap"
    by auto
  then obtain p where p: "(?k, p) \<in> set cmap"
    by auto
  with Cons.prems(1) have look: "map_of cmap ?k = Some p"
    by simp
  from Cons.prems(4) p have agree: "containers_agree t (h p)"
    by auto
  from Cons.prems(1) have d': "distinct (map fst (AList.delete ?k cmap))"
    by (rule distinct_delete)
  from Cons.prems(2) have dt: "distinct (map Container.Name ts)" and fresh: "?k \<notin> set (map Container.Name ts)"
    by simp_all
  have "set (map fst (AList.delete ?k cmap)) = set (map fst cmap) - {?k}"
    by (simp add: delete_keys)
  also from Cons.prems(3) fresh have "\<dots> = set (map Container.Name ts)"
    by auto
  finally have k': "set (map fst (AList.delete ?k cmap)) = set (map Container.Name ts)" .
  have "set (AList.delete ?k cmap) \<subseteq> set cmap"
    by (auto simp: AList.delete_eq)
  with Cons.prems(4) have a': "\<forall>t \<in> set ts. \<forall>(n, p) \<in> set (AList.delete ?k cmap).
      Container.Name t = n \<longrightarrow> containers_agree t (h p)"
    by fastforce
  from Cons.IH [OF d' dt k' a'] have "\<not> match_template ts (AList.delete ?k cmap) h" .
  with look agree show ?case
    by (simp add: containers_agree_def resources_agree_not_differ Let_def)
qed

lemma match_template_image_differs:
  assumes "t \<in> set ts"
    and "case map_of cmap (Container.Name t) of None \<Rightarrow> True | Some p \<Rightarrow> Image t \<noteq> Image (h p)"
  shows "match_template ts cmap h"
  using assms
proof (induction ts arbitrary: cmap)
  case Nil
  then show ?case by simp
next
  case (Cons u ts)
  show ?case
  proof (cases "u = t")
    case True
    with Cons.prems(2) show ?thesis
      by (simp split: option.splits)
  next
    case False
    with Cons.prems(1) have t: "t \<in> set ts"
      by simp
    have "case map_of (AList.delete (Container.Name u) cmap) (Container.Name t) of
            None \<Rightarrow> True | Some p \<Rightarrow> Image t \<noteq> Image (h p)"
      using Cons.prems(2) by (cases "Container.Name t = Container.Name u") (simp_all add: delete_conv')
    from Cons.IH [OF t this] show ?thesis
      by (simp add: Let_def split: option.splits)
  qed
qed


text \<open>
  With a variable per iteration the function does match by name: for a running pod, not
  marked for deletion, whose container names are pairwise distinct, a template with the
  same names (in any order) whose containers agree with the pod's of the same name is
  not reported, and a template with a container that differs in image from the pod's
  container of the same name is.
\<close>

lemma fill_cmap_PerIteration_start:
  assumes "distinct (map Container.Name cs)"
  shows "fill_cmap PerIteration 0 cs ([], empty_heap) =
     (zip (map Container.Name cs) [0..<length cs],
      (\<lambda>a. if a < length cs then cs ! a else zero_Container))"
proof -
  have "(\<lambda>a. if 0 \<le> a \<and> a < 0 + length cs then cs ! (a - 0) else empty_heap a) =
        (\<lambda>a. if a < length cs then cs ! a else zero_Container)"
    by (rule ext) (simp add: empty_heap_def)
  with fill_cmap_PerIteration [OF assms, of "[]" 0 empty_heap] show ?thesis
    by simp
qed

lemma PodNotMatchingTemplate_PerIteration_reordering:
  assumes running: "Phase (Status pod) = PodRunning"
    and alive: "DeletionTimestamp (Pod.ObjectMeta pod) = None"
    and names: "distinct (map Container.Name (Containers (Pod.Spec pod)))"
    and tnames: "distinct (map Container.Name (Containers (PodTemplateSpec.Spec template)))"
    and perm: "set (map Container.Name (Containers (PodTemplateSpec.Spec template))) =
               set (map Container.Name (Containers (Pod.Spec pod)))"
    and agree: "\<forall>t \<in> set (Containers (PodTemplateSpec.Spec template)).
                \<forall>p \<in> set (Containers (Pod.Spec pod)).
                  Container.Name t = Container.Name p \<longrightarrow> containers_agree t p"
  shows "\<not> PodNotMatchingTemplate PerIteration pod template"
proof -
  let ?pcs = "Containers (Pod.Spec pod)" and ?tcs = "Containers (PodTemplateSpec.Spec template)"
  let ?cmap = "zip (map Container.Name ?pcs) [0..<length ?pcs]"
  let ?h = "\<lambda>a. if a < length ?pcs then ?pcs ! a else zero_Container"
  from names tnames perm have len: "length ?tcs = length ?pcs"
    by (metis distinct_card length_map)
  have keys: "map fst ?cmap = map Container.Name ?pcs"
    by simp
  have "\<forall>t \<in> set ?tcs. \<forall>(n, p) \<in> set ?cmap. Container.Name t = n \<longrightarrow> containers_agree t (?h p)"
  proof (intro ballI, clarify)
    fix t n p
    assume t: "t \<in> set ?tcs" and np: "(Container.Name t, p) \<in> set ?cmap"
    from np have j: "p < length ?pcs" and n: "Container.Name t = Container.Name (?pcs ! p)"
      by (auto simp: in_set_zip)
    from j have "?pcs ! p \<in> set ?pcs"
      by simp
    with agree t n have "containers_agree t (?pcs ! p)"
      by blast
    with j show "containers_agree t (?h p)"
      by simp
  qed
  with names tnames perm keys have "\<not> match_template ?tcs ?cmap ?h"
    by (intro match_template_agree) simp_all
  with len show ?thesis
    by (simp add: PodNotMatchingTemplate_def fill_cmap_PerIteration_start [OF names])
qed

lemma PodNotMatchingTemplate_PerIteration_image:
  assumes running: "Phase (Status pod) = PodRunning"
    and alive: "DeletionTimestamp (Pod.ObjectMeta pod) = None"
    and names: "distinct (map Container.Name (Containers (Pod.Spec pod)))"
    and t: "t \<in> set (Containers (PodTemplateSpec.Spec template))"
    and p: "p \<in> set (Containers (Pod.Spec pod))"
    and same_name: "Container.Name t = Container.Name p"
    and image: "Image t \<noteq> Image p"
  shows "PodNotMatchingTemplate PerIteration pod template"
proof -
  let ?pcs = "Containers (Pod.Spec pod)" and ?tcs = "Containers (PodTemplateSpec.Spec template)"
  let ?cmap = "zip (map Container.Name ?pcs) [0..<length ?pcs]"
  let ?h = "\<lambda>a. if a < length ?pcs then ?pcs ! a else zero_Container"
  from p obtain j where j: "j < length ?pcs" and pj: "?pcs ! j = p"
    by (auto simp: in_set_conv_nth)
  from names j have "map_of ?cmap (map Container.Name ?pcs ! j) = Some ([0..<length ?pcs] ! j)"
    by (intro map_of_zip_nth) simp_all
  with j pj same_name have "map_of ?cmap (Container.Name t) = Some j"
    by simp
  with j pj image have "case map_of ?cmap (Container.Name t) of
      None \<Rightarrow> True | Some q \<Rightarrow> Image t \<noteq> Image (?h q)"
    by simp
  from match_template_image_differs [OF t this] show ?thesis
    by (simp add: PodNotMatchingTemplate_def running alive fill_cmap_PerIteration_start [OF names])
qed


text \<open>
  With one variable for the loop, a running pod of two or more containers whose first
  and last images differ is reported as drifted even from a template with exactly the
  pod's own containers.
\<close>

lemma map_of_foldl_update:
  "map_of (foldl (\<lambda>m c. AList.update (Container.Name c) (0::addr) m) cmap cs) k =
     (if k \<in> Container.Name ` set cs then Some 0 else map_of cmap k)"
  by (induction cs arbitrary: cmap) (auto simp: update_conv')

lemma PodNotMatchingTemplate_PerLoop_own_containers:
  assumes running: "Phase (Status pod) = PodRunning"
    and alive: "DeletionTimestamp (Pod.ObjectMeta pod) = None"
    and pcs: "Containers (Pod.Spec pod) = c # cs"
    and tcs: "Containers (PodTemplateSpec.Spec template) = c # cs"
    and image: "Image c \<noteq> Image (last (c # cs))"
  shows "PodNotMatchingTemplate PerLoop pod template"
proof -
  have "map_of (foldl (\<lambda>m c. AList.update (Container.Name c) (0::addr) m) [] (c # cs)) (Container.Name c) = Some 0"
    by (simp only: map_of_foldl_update) simp
  with image show ?thesis
    by (simp add: PodNotMatchingTemplate_def running alive pcs tcs fill_cmap_PerLoop Let_def
        del: foldl.simps fill_cmap.simps last.simps)
qed

text \<open>
  The pod and the two templates of C3 below, had each iteration a variable of its own:
  the reordered template is not reported, the changed image is.
\<close>

lemma PodNotMatchingTemplate_PerIteration_examples:
  "\<not> PodNotMatchingTemplate PerIteration
     (running_pod [plain_container ''ray-head'' ''rayproject/ray:1.12.1'',
                   plain_container ''fluentbit'' ''fluent/fluent-bit:1.9.6''])
     (template_of [plain_container ''fluentbit'' ''fluent/fluent-bit:1.9.6'',
                   plain_container ''ray-head'' ''rayproject/ray:1.12.1'']) \<and>
   PodNotMatchingTemplate PerIteration
     (running_pod [plain_container ''ray-head'' ''rayproject/ray:1.12.1'',
                   plain_container ''fluentbit'' ''fluent/fluent-bit:1.9.6''])
     (template_of [plain_container ''ray-head'' ''fluent/fluent-bit:1.9.6'',
                   plain_container ''fluentbit'' ''fluent/fluent-bit:1.9.6''])"
  by (simp add: PodNotMatchingTemplate_def running_pod_def template_of_def plain_container_def
      PodRunning_def container_var_def empty_heap_def)

text \<open>
  C3. The claim (containers are matched by name, not position: a running pod, not marked
  for deletion, whose containers are a reordering of the template's is not reported as
  drifted, and a same-named pair that differs in image is) does not hold of the code
  under the loop-variable rule of Go up to 1.21. Every entry of \<^verbatim>\<open>cmap\<close> is the
  address of the one loop variable, which after the loop holds the pod's last container,
  so every template container is compared with that one. For a running pod with the
  containers \<open>ray-head\<close> and \<open>fluentbit\<close>: a template with the same two containers
  in the other order is reported as drifted, and a template whose \<open>ray-head\<close> has
  another image (that of the pod's \<open>fluentbit\<close>) is not.
\<close>

theorem PodNotMatchingTemplate_compares_with_last_container:
  "PodNotMatchingTemplate PerLoop
     (running_pod [plain_container ''ray-head'' ''rayproject/ray:1.12.1'',
                   plain_container ''fluentbit'' ''fluent/fluent-bit:1.9.6''])
     (template_of [plain_container ''fluentbit'' ''fluent/fluent-bit:1.9.6'',
                   plain_container ''ray-head'' ''rayproject/ray:1.12.1'']) \<and>
   \<not> PodNotMatchingTemplate PerLoop
     (running_pod [plain_container ''ray-head'' ''rayproject/ray:1.12.1'',
                   plain_container ''fluentbit'' ''fluent/fluent-bit:1.9.6''])
     (template_of [plain_container ''ray-head'' ''fluent/fluent-bit:1.9.6'',
                   plain_container ''fluentbit'' ''fluent/fluent-bit:1.9.6''])"
  by (simp add: PodNotMatchingTemplate_def running_pod_def template_of_def plain_container_def
      PodRunning_def container_var_def empty_heap_def)

end
